theory Spec2Isabelle
  imports Main "HOL-Library.Word"
begin

unbundle bit_operations_syntax

section \<open>Constants of the serial port module\<close>

text \<open>
  The module binds a POSIX serial device through the C library.  Flag words are the
  32-bit fields of the termios structure; JavaScript's bitwise operators work on the
  32-bit pattern of their operands, which is what \<open>32 word\<close> is.  The source writes
  the constants in octal; the decimal value is given here with the octal in a comment.
\<close>

type_synonym byte = "8 word"
type_synonym u32 = "32 word"

definition O_RDWR :: u32 where "O_RDWR = 0x2"
definition O_NOCTTY :: u32 where "O_NOCTTY = 0x100"
definition O_SYNC :: u32 where "O_SYNC = 0x101000"
definition TCSANOW :: int where "TCSANOW = 0"

definition CSIZE :: u32 where "CSIZE = 48"  \<comment> \<open>0o000060\<close>
definition CS5 :: u32 where "CS5 = 0"  \<comment> \<open>0o000000\<close>
definition CS6 :: u32 where "CS6 = 16"  \<comment> \<open>0o000020\<close>
definition CS7 :: u32 where "CS7 = 32"  \<comment> \<open>0o000040\<close>
definition CS8 :: u32 where "CS8 = 48"  \<comment> \<open>0o000060\<close>
definition CSTOPB :: u32 where "CSTOPB = 64"  \<comment> \<open>0o000100\<close>
definition CREAD :: u32 where "CREAD = 128"  \<comment> \<open>0o000200\<close>
definition PARENB :: u32 where "PARENB = 256"  \<comment> \<open>0o000400\<close>
definition PARODD :: u32 where "PARODD = 512"  \<comment> \<open>0o001000\<close>
definition HUPCL :: u32 where "HUPCL = 1024"  \<comment> \<open>0o002000\<close>
definition CLOCAL :: u32 where "CLOCAL = 2048"  \<comment> \<open>0o004000\<close>
definition CRTSCTS :: u32 where "CRTSCTS = 2147483648"  \<comment> \<open>0o20000000000\<close>
definition VTIME :: nat where "VTIME = 5"
definition VMIN :: nat where "VMIN = 6"

datatype Baudrate =
    B9600 | B19200 | B38400 | B57600 | B115200 | B230400 | B460800 | B500000
  | B576000 | B921600 | B1000000 | B1152000 | B1500000 | B2000000 | B2500000
  | B3000000 | B3500000 | B4000000

text \<open>The numeric value of each member of the enum.\<close>

fun Baudrate_value :: "Baudrate \<Rightarrow> u32" where
  "Baudrate_value B9600 = 13"  \<comment> \<open>0o000015\<close>
| "Baudrate_value B19200 = 14"  \<comment> \<open>0o000016\<close>
| "Baudrate_value B38400 = 15"  \<comment> \<open>0o000017\<close>
| "Baudrate_value B57600 = 4097"  \<comment> \<open>0o010001\<close>
| "Baudrate_value B115200 = 4098"  \<comment> \<open>0o010002\<close>
| "Baudrate_value B230400 = 4099"  \<comment> \<open>0o010003\<close>
| "Baudrate_value B460800 = 4100"  \<comment> \<open>0o010004\<close>
| "Baudrate_value B500000 = 4101"  \<comment> \<open>0o010005\<close>
| "Baudrate_value B576000 = 4102"  \<comment> \<open>0o010006\<close>
| "Baudrate_value B921600 = 4103"  \<comment> \<open>0o010007\<close>
| "Baudrate_value B1000000 = 4104"  \<comment> \<open>0o010010\<close>
| "Baudrate_value B1152000 = 4105"  \<comment> \<open>0o010011\<close>
| "Baudrate_value B1500000 = 4106"  \<comment> \<open>0o010012\<close>
| "Baudrate_value B2000000 = 4107"  \<comment> \<open>0o010013\<close>
| "Baudrate_value B2500000 = 4108"  \<comment> \<open>0o010014\<close>
| "Baudrate_value B3000000 = 4109"  \<comment> \<open>0o010015\<close>
| "Baudrate_value B3500000 = 4110"  \<comment> \<open>0o010016\<close>
| "Baudrate_value B4000000 = 4111"  \<comment> \<open>0o010017\<close>

text \<open>
  \<open>timeout_in_deciseconds\<close> and \<open>minimum_number_of_chars_read\<close> are JavaScript numbers;
  the model takes the integers among them.  \<open>buffer_size\<close> is optional and is the length
  of a typed array, a natural number.
\<close>

record SerialOptions =
  baudrate :: Baudrate
  timeout_in_deciseconds :: int
  minimum_number_of_chars_read :: int
  buffer_size :: "nat option"

section \<open>Byte buffers and the DataView accessors\<close>

text \<open>
  An \<open>ArrayBuffer\<close> is a list of bytes.  The bytes of a 32-bit and of a 16-bit value,
  most significant first, and the value of a list of bytes read most significant first.
\<close>

definition bytes_of_u32 :: "u32 \<Rightarrow> byte list" where
  "bytes_of_u32 v =
     [ucast (drop_bit 24 v), ucast (drop_bit 16 v), ucast (drop_bit 8 v), ucast v]"

definition bytes_of_u16 :: "16 word \<Rightarrow> byte list" where
  "bytes_of_u16 v = [ucast (drop_bit 8 v), ucast v]"

fun word_of_bytes :: "byte list \<Rightarrow> 'a::len word" where
  "word_of_bytes [] = 0"
| "word_of_bytes (b # bs) = push_bit (8 * length bs) (ucast b) OR word_of_bytes bs"

text \<open>
  \<open>DataView.setUint32(byteOffset, value, littleEndian)\<close>, \<open>getUint32\<close> and
  \<open>setUint8\<close>.  JavaScript raises a RangeError when the access does not fit the
  buffer; the module only uses them on its 100-byte buffer at offsets up to 23, so the
  model gives the in-range behaviour.  \<open>setUint8\<close> stores its argument modulo 256.
\<close>

definition setUint32 :: "byte list \<Rightarrow> nat \<Rightarrow> u32 \<Rightarrow> bool \<Rightarrow> byte list" where
  "setUint32 buf byteOffset v littleEndian =
     (let bs = (if littleEndian then rev (bytes_of_u32 v) else bytes_of_u32 v)
      in buf[byteOffset := bs ! 0, byteOffset + 1 := bs ! 1,
             byteOffset + 2 := bs ! 2, byteOffset + 3 := bs ! 3])"

definition getUint32 :: "byte list \<Rightarrow> nat \<Rightarrow> bool \<Rightarrow> u32" where
  "getUint32 buf byteOffset littleEndian =
     (let bs = [buf ! byteOffset, buf ! (byteOffset + 1),
                buf ! (byteOffset + 2), buf ! (byteOffset + 3)]
      in word_of_bytes (if littleEndian then rev bs else bs))"

definition setUint8 :: "byte list \<Rightarrow> nat \<Rightarrow> int \<Rightarrow> byte list" where
  "setUint8 buf byteOffset v = buf[byteOffset := word_of_int v]"

definition setInt16 :: "byte list \<Rightarrow> nat \<Rightarrow> 16 word \<Rightarrow> bool \<Rightarrow> byte list" where
  "setInt16 buf byteOffset v littleEndian =
     (let bs = (if littleEndian then rev (bytes_of_u16 v) else bytes_of_u16 v)
      in buf[byteOffset := bs ! 0, byteOffset + 1 := bs ! 1])"

text \<open>
  \<open>new Int16Array(buffer)[i]\<close> reads element \<open>i\<close> in the byte order of the host, as a
  signed 16-bit integer.
\<close>

definition Int16Array_at :: "bool \<Rightarrow> byte list \<Rightarrow> nat \<Rightarrow> int" where
  "Int16Array_at host_le buf i =
     (let bs = [buf ! (2 * i), buf ! (2 * i + 1)]
      in sint (word_of_bytes (if host_le then rev bs else bs) :: 16 word))"

text \<open>
  A system call that stores through a pointer argument overwrites the front of the
  buffer it is given and leaves the length of the buffer as it is.
\<close>

definition stored_into :: "byte list \<Rightarrow> byte list \<Rightarrow> byte list" where
  "stored_into buf bs = take (length buf) bs @ drop (length bs) buf"

section \<open>The C library\<close>

text \<open>
  The module reaches the operating system through nine symbols of the C library, each
  awaited before the next statement runs.  The model records every call in a log and
  takes the answers from a \<open>platform\<close>: for each symbol, a function from the log of
  all calls made so far (the current one last) to what that call returns, and for the
  calls that store through a pointer, the bytes stored.  \<open>__errno_location\<close> and
  \<open>strerror\<close> return a pointer: \<open>None\<close> is the null pointer, \<open>Some\<close> what is read
  through it.  The platform also fixes the byte order of the host and the two text
  codecs of the runtime.
\<close>

datatype call =
    Call_open "byte list" u32
  | Call_close int
  | Call_write int "byte list" nat
  | Call_read int nat
  | Call_errno_location
  | Call_strerror int
  | Call_tcgetattr int
  | Call_tcsetattr int int "byte list"
  | Call_cfsetspeed "byte list" u32

record platform =
  host_little_endian :: bool
  TextEncoder_encode :: "string \<Rightarrow> byte list"
  TextDecoder_decode :: "byte list \<Rightarrow> string"
  open_c :: "call list \<Rightarrow> int"
  close_c :: "call list \<Rightarrow> int"
  write_c :: "call list \<Rightarrow> int"
  read_c :: "call list \<Rightarrow> int \<times> byte list"
  errno_location_c :: "call list \<Rightarrow> int option"
  strerror_c :: "call list \<Rightarrow> string option"
  tcgetattr_c :: "call list \<Rightarrow> int \<times> byte list"
  tcsetattr_c :: "call list \<Rightarrow> int"
  cfsetspeed_c :: "call list \<Rightarrow> int \<times> byte list"

type_synonym 'a io = "call list \<Rightarrow> 'a \<times> call list"

definition library_open :: "platform \<Rightarrow> byte list \<Rightarrow> u32 \<Rightarrow> int io" where
  "library_open os path flags h =
     (let h' = h @ [Call_open path flags] in (open_c os h', h'))"

definition library_close :: "platform \<Rightarrow> int \<Rightarrow> int io" where
  "library_close os fd h = (let h' = h @ [Call_close fd] in (close_c os h', h'))"

definition library_write :: "platform \<Rightarrow> int \<Rightarrow> byte list \<Rightarrow> nat \<Rightarrow> int io" where
  "library_write os fd buf n h =
     (let h' = h @ [Call_write fd buf n] in (write_c os h', h'))"

definition library_read :: "platform \<Rightarrow> int \<Rightarrow> byte list \<Rightarrow> nat \<Rightarrow> (int \<times> byte list) io" where
  "library_read os fd buf n h =
     (let h' = h @ [Call_read fd n]
      in case read_c os h' of (ret, bs) \<Rightarrow> ((ret, stored_into buf bs), h'))"

definition library_errno_location :: "platform \<Rightarrow> int option io" where
  "library_errno_location os h =
     (let h' = h @ [Call_errno_location] in (errno_location_c os h', h'))"

definition library_strerror :: "platform \<Rightarrow> int \<Rightarrow> string option io" where
  "library_strerror os errnum h =
     (let h' = h @ [Call_strerror errnum] in (strerror_c os h', h'))"

definition library_tcgetattr :: "platform \<Rightarrow> int \<Rightarrow> byte list \<Rightarrow> (int \<times> byte list) io" where
  "library_tcgetattr os fd buf h =
     (let h' = h @ [Call_tcgetattr fd]
      in case tcgetattr_c os h' of (ret, bs) \<Rightarrow> ((ret, stored_into buf bs), h'))"

definition library_tcsetattr :: "platform \<Rightarrow> int \<Rightarrow> int \<Rightarrow> byte list \<Rightarrow> int io" where
  "library_tcsetattr os fd act buf h =
     (let h' = h @ [Call_tcsetattr fd act buf] in (tcsetattr_c os h', h'))"

definition library_cfsetspeed :: "platform \<Rightarrow> byte list \<Rightarrow> u32 \<Rightarrow> (int \<times> byte list) io" where
  "library_cfsetspeed os buf speed h =
     (let h' = h @ [Call_cfsetspeed buf speed]
      in case cfsetspeed_c os h' of (ret, bs) \<Rightarrow> ((ret, stored_into buf bs), h'))"

section \<open>Rendering the last error\<close>

definition errno :: "platform \<Rightarrow> int io" where
  "errno os h =
     (case library_errno_location os h of
        (None, h') \<Rightarrow> (0, h')
      | (Some v, h') \<Rightarrow> (v, h'))"

definition strerror :: "platform \<Rightarrow> int \<Rightarrow> string io" where
  "strerror os errnum h =
     (case library_strerror os errnum h of
        (None, h') \<Rightarrow> ([], h')
      | (Some s, h') \<Rightarrow> (s, h'))"

definition geterrnoString :: "platform \<Rightarrow> string io" where
  "geterrnoString os h = (case errno os h of (e, h') \<Rightarrow> strerror os e h')"

section \<open>The serial port\<close>

text \<open>
  Every failure of the module is a JavaScript \<open>Error\<close> carrying a message.  The model
  names each throw site by the error kind the specification gives it and keeps the
  message.  \<open>ClosedHandle\<close> is the kind the specification gives to operations on a
  closed port.
\<close>

datatype error =
    OpenFailed string
  | GetAttributesFailed string
  | SetAttributesFailed string
  | IoError string
  | ShortWrite string
  | CloseError string
  | ClosedHandle

text \<open>
  The class has two private fields, both set by the constructor and assigned nowhere
  else, so the methods return no new port.  The \<open>isize\<close> results of \<open>read\<close> and
  \<open>write\<close> are taken as JavaScript numbers, as \<open>rlen as number\<close> and
  \<open>wlen !== data.length\<close> in the source take them, and modelled as integers; a runtime
  that hands them over as BigInt is outside the model.
\<close>

record SerialPort =
  fd :: int
  options :: SerialOptions

definition SerialPort_read :: "platform \<Rightarrow> SerialPort \<Rightarrow> (error + byte list) io" where
  "SerialPort_read os this h =
     (let ibuffer = replicate (case buffer_size (options this) of None \<Rightarrow> 255 | Some n \<Rightarrow> n) 0
      in case library_read os (fd this) ibuffer (length ibuffer) h of
           ((rlen, ibuffer'), h1) \<Rightarrow>
             if rlen < 0 then
               (case geterrnoString os h1 of
                  (s, h2) \<Rightarrow> (Inl (IoError (''Error while reading: '' @ s)), h2))
             else (Inr (take (nat rlen) ibuffer'), h1))"

definition SerialPort_read_string :: "platform \<Rightarrow> SerialPort \<Rightarrow> (error + string) io" where
  "SerialPort_read_string os this h =
     (case SerialPort_read os this h of
        (Inl e, h') \<Rightarrow> (Inl e, h')
      | (Inr bs, h') \<Rightarrow> (Inr (TextDecoder_decode os bs), h'))"

definition SerialPort_write :: "platform \<Rightarrow> SerialPort \<Rightarrow> byte list \<Rightarrow> (error + unit) io" where
  "SerialPort_write os this data h =
     (case library_write os (fd this) data (length data) h of
        (wlen, h1) \<Rightarrow>
          if wlen < 0 then
            (case geterrnoString os h1 of
               (s, h2) \<Rightarrow> (Inl (IoError (''Error while writing: '' @ s)), h2))
          else if wlen \<noteq> int (length data) then
            (Inl (ShortWrite (''Couldn'' @ [CHR 0x27] @ ''t write data'')), h1)
          else (Inr (), h1))"

definition SerialPort_write_string :: "platform \<Rightarrow> SerialPort \<Rightarrow> string \<Rightarrow> (error + unit) io" where
  "SerialPort_write_string os this str h =
     (let data = TextEncoder_encode os str in SerialPort_write os this data h)"

definition SerialPort_close :: "platform \<Rightarrow> SerialPort \<Rightarrow> (error + unit) io" where
  "SerialPort_close os this h =
     (case library_close os (fd this) h of
        (ret, h1) \<Rightarrow>
          if ret < 0 then
            (case geterrnoString os h1 of
               (s, h2) \<Rightarrow> (Inl (CloseError (''Error while closing: '' @ s)), h2))
          else (Inr (), h1))"

definition SerialPort_asyncDispose :: "platform \<Rightarrow> SerialPort \<Rightarrow> (error + unit) io" where
  "SerialPort_asyncDispose os this h = SerialPort_close os this h"

text \<open>
  \<open>String.prototype.split\<close> with a separator of one character: the segments between
  the occurrences of the separator, in order.  The result is never empty: a string
  without the separator is its own single segment.
\<close>

fun String_split :: "string \<Rightarrow> char \<Rightarrow> string list" where
  "String_split [] sep = [[]]"
| "String_split (c # cs) sep =
     (if c = sep then [] # String_split cs sep
      else (case String_split cs sep of
              [] \<Rightarrow> [[c]]
            | l # ls \<Rightarrow> (c # l) # ls))"

text \<open>
  \<open>read_line\<close> is an asynchronous generator whose loop has no exit.  Its model is a
  function of the outcomes of the successive \<open>await this.read_string()\<close>, in order:
  it gives the lines yielded while these outcomes are consumed and where the generator
  then stands, \<open>Inr data\<close> when it awaits the next read with \<open>data\<close> pending and
  \<open>Inl e\<close> when a read threw \<open>e\<close>, which ends the generator.  \<open>lines.pop()\<close> removes
  the last element of \<open>lines\<close> and returns it.
\<close>

fun read_line_loop :: "string \<Rightarrow> (error + string) list \<Rightarrow> string list \<times> (error + string)" where
  "read_line_loop data [] = ([], Inr data)"
| "read_line_loop data (Inl e # rs) = ([], Inl e)"
| "read_line_loop data (Inr read # rs) =
     (if length read = 0 then read_line_loop data rs
      else
        let data1 = data @ read;
            lines = String_split data1 (CHR 0x0A);
            data2 = last lines;
            lines' = butlast lines
        in case read_line_loop data2 rs of (ys, r) \<Rightarrow> (lines' @ ys, r))"

definition SerialPort_read_line :: "(error + string) list \<Rightarrow> string list \<times> (error + string)" where
  "SerialPort_read_line rs = read_line_loop [] rs"

section \<open>Opening a port\<close>

definition is_platform_little_endian :: "platform \<Rightarrow> bool" where
  "is_platform_little_endian os =
     (let buffer = replicate 2 0;
          buffer' = setInt16 buffer 0 256 True
      in Int16Array_at (host_little_endian os) buffer' 0 = 256)"

definition open_port :: "platform \<Rightarrow> string \<Rightarrow> SerialOptions \<Rightarrow> (error + SerialPort) io" where
  "open_port os file opts h =
     (let buffer = TextEncoder_encode os file
      in case library_open os buffer (O_RDWR OR O_NOCTTY OR O_SYNC) h of
        (fd', h1) \<Rightarrow>
          if fd' < 0 then
            (case geterrnoString os h1 of
               (s, h2) \<Rightarrow>
                 (Inl (OpenFailed (''Couldn'' @ [CHR 0x27] @ ''t open '' @ [CHR 0x27] @ file
                                   @ [CHR 0x27] @ '': '' @ s)), h2))
          else
            let tty = replicate 100 0
            in case library_tcgetattr os fd' tty h1 of
              ((r, tty1), h2) \<Rightarrow>
                if r \<noteq> 0 then
                  (case geterrnoString os h2 of
                     (s, h3) \<Rightarrow> (Inl (GetAttributesFailed (''tcgetattr: '' @ s)), h3))
                else
                  case library_cfsetspeed os tty1 (Baudrate_value (baudrate opts)) h2 of
                    ((r', tty2), h3) \<Rightarrow>
                      let littleEndian = is_platform_little_endian os;
                          tty3 = setUint32 tty2 0 0 littleEndian;
                          tty4 = setUint32 tty3 4 0 littleEndian;
                          cflag = getUint32 tty4 8 littleEndian;
                          cflag = cflag AND NOT PARENB;
                          cflag = cflag AND NOT CSTOPB;
                          cflag = cflag AND NOT CSIZE;
                          cflag = cflag OR CS8;
                          cflag = cflag AND NOT CRTSCTS;
                          cflag = cflag OR (CREAD OR CLOCAL);
                          tty5 = setUint32 tty4 8 cflag littleEndian;
                          tty6 = setUint32 tty5 12 0 littleEndian;
                          tty7 = setUint8 tty6 (17 + VTIME) (timeout_in_deciseconds opts);
                          tty8 = setUint8 tty7 (17 + VMIN) (minimum_number_of_chars_read opts)
                      in case library_tcsetattr os fd' TCSANOW tty8 h3 of
                        (r'', h4) \<Rightarrow>
                          if r'' \<noteq> 0 then
                            (case geterrnoString os h4 of
                               (s, h5) \<Rightarrow>
                                 (Inl (SetAttributesFailed (''tcsetattr: '' @ s)), h5))
                          else (Inr \<lparr>fd = fd', options = opts\<rparr>, h4))"

section \<open>Observations on the log and on a termios image\<close>

fun is_read :: "call \<Rightarrow> bool" where
  "is_read (Call_read f n) = True"
| "is_read c = False"

fun is_write :: "call \<Rightarrow> bool" where
  "is_write (Call_write f d n) = True"
| "is_write c = False"

fun is_close :: "call \<Rightarrow> bool" where
  "is_close (Call_close f) = True"
| "is_close c = False"

text \<open>
  What the operating system finds in an image, read in the byte order of the host:
  8 data bits, no parity, one stop bit, no hardware flow control, receiver enabled,
  modem control lines ignored, and the input, output and local flags all zero.
\<close>

definition is_8N1 :: "bool \<Rightarrow> byte list \<Rightarrow> bool" where
  "is_8N1 host_le img \<longleftrightarrow>
     (let cflag = getUint32 img 8 host_le
      in cflag AND PARENB = 0 \<and> cflag AND CSTOPB = 0 \<and> cflag AND CSIZE = CS8 \<and>
         cflag AND CRTSCTS = 0 \<and> cflag AND CREAD = CREAD \<and> cflag AND CLOCAL = CLOCAL \<and>
         getUint32 img 0 host_le = 0 \<and> getUint32 img 4 host_le = 0 \<and>
         getUint32 img 12 host_le = 0)"

section \<open>A simulated platform\<close>

text \<open>
  A little-endian host on which the device opens as descriptor 3.  Until descriptor 3
  is closed a read delivers two bytes and a write takes the whole buffer; once it is
  closed every call on it fails with \<open>EBADF\<close>.  \<open>tcgetattr\<close> stores a 60-byte termios
  structure with parity, two stop bits, 7 data bits and hardware flow control switched
  on; \<open>cfsetspeed\<close> fails and stores nothing.
\<close>

definition sim_closed :: "call list \<Rightarrow> bool" where
  "sim_closed h = (Call_close 3 \<in> set (butlast h))"

definition sim_termios :: "byte list" where
  "sim_termios =
     [0x00, 0x05, 0x00, 0x00,  0x05, 0x00, 0x00, 0x00,
      0x6F, 0x05, 0x00, 0x80,  0x3B, 0x8A, 0x00, 0x00,  0x00,
      0x03, 0x1C, 0x7F, 0x15, 0x04, 0x00, 0x01, 0x00, 0x11, 0x13, 0x1A]
     @ replicate 32 0"

definition sim_platform :: platform where
  "sim_platform =
     \<lparr>host_little_endian = True,
      TextEncoder_encode = map of_char,
      TextDecoder_decode = map (\<lambda>b. char_of (unat b)),
      open_c = (\<lambda>h. 3),
      close_c = (\<lambda>h. if sim_closed h then - 1 else 0),
      write_c = (\<lambda>h. if sim_closed h then - 1
                      else case last h of Call_write f d n \<Rightarrow> int n | _ \<Rightarrow> - 1),
      read_c = (\<lambda>h. if sim_closed h then (- 1, []) else (2, [72, 105])),
      errno_location_c = (\<lambda>h. Some 9),
      strerror_c = (\<lambda>h. Some ''Bad file descriptor''),
      tcgetattr_c = (\<lambda>h. (0, sim_termios)),
      tcsetattr_c = (\<lambda>h. 0),
      cfsetspeed_c = (\<lambda>h. (- 1, []))\<rparr>"

text \<open>
  Variants of it: the device does not exist; the path is not a terminal, so that
  \<open>tcgetattr\<close> fails after the open succeeded; the attributes are rejected; a write
  takes one byte only; a read times out with no data.
\<close>

definition enoent_platform :: platform where
  "enoent_platform =
     sim_platform\<lparr>open_c := (\<lambda>h. - 1), errno_location_c := (\<lambda>h. Some 2),
       strerror_c := (\<lambda>h. Some ''No such file or directory'')\<rparr>"

definition enotty_platform :: platform where
  "enotty_platform =
     sim_platform\<lparr>tcgetattr_c := (\<lambda>h. (- 1, [])), errno_location_c := (\<lambda>h. Some 25),
       strerror_c := (\<lambda>h. Some ''Inappropriate ioctl for device'')\<rparr>"

definition einval_platform :: platform where
  "einval_platform =
     sim_platform\<lparr>tcsetattr_c := (\<lambda>h. - 1), errno_location_c := (\<lambda>h. Some 22),
       strerror_c := (\<lambda>h. Some ''Invalid argument'')\<rparr>"

definition short_write_platform :: platform where
  "short_write_platform = sim_platform\<lparr>write_c := (\<lambda>h. 1)\<rparr>"

definition idle_platform :: platform where
  "idle_platform = sim_platform\<lparr>read_c := (\<lambda>h. (0, []))\<rparr>"

text \<open>The options of the module's own main program, and the port it opens.\<close>

definition main_options :: SerialOptions where
  "main_options =
     \<lparr>baudrate = B115200, timeout_in_deciseconds = 10,
      minimum_number_of_chars_read = 0, buffer_size = None\<rparr>"

definition main_port :: SerialPort where
  "main_port = \<lparr>fd = 3, options = main_options\<rparr>"

section \<open>Facts about the buffers, the flags and the log\<close>

lemma word_of_bytes_of_u32: "word_of_bytes (bytes_of_u32 v) = v"
proof (rule bit_word_eqI)
  fix n assume "n < LENGTH(32)"
  then show "bit (word_of_bytes (bytes_of_u32 v) :: u32) n = bit v n"
    by (cases "n < 8"; cases "n < 16"; cases "n < 24")
       (auto simp add: bytes_of_u32_def bit_simps)
qed

lemma length_setUint32 [simp]: "length (setUint32 buf off v le) = length buf"
  by (simp add: setUint32_def Let_def)

lemma length_setUint8 [simp]: "length (setUint8 buf off v) = length buf"
  by (simp add: setUint8_def)

lemma length_stored_into [simp]: "length (stored_into buf bs) = length buf"
  by (simp add: stored_into_def)

lemma getUint32_setUint32_same:
  "off + 4 \<le> length buf \<Longrightarrow> getUint32 (setUint32 buf off v le) off le = v"
  using word_of_bytes_of_u32 [of v]
  by (simp add: getUint32_def setUint32_def bytes_of_u32_def)

lemma getUint32_setUint32_other:
  "off' + 4 \<le> off \<or> off + 4 \<le> off' \<Longrightarrow>
   getUint32 (setUint32 buf off' v le') off le = getUint32 buf off le"
  by (auto simp add: getUint32_def setUint32_def Let_def)

lemma getUint32_setUint8_other:
  "off' < off \<or> off + 4 \<le> off' \<Longrightarrow>
   getUint32 (setUint8 buf off' v) off le = getUint32 buf off le"
  by (auto simp add: getUint32_def setUint8_def Let_def)

lemma is_platform_little_endian_host:
  "is_platform_little_endian os = host_little_endian os"
  by (simp add: is_platform_little_endian_def setInt16_def Int16Array_at_def
      bytes_of_u16_def Let_def)

lemma bit_pow_u32: "m < 32 \<Longrightarrow> bit (2 ^ m :: u32) n \<longleftrightarrow> n = m"
  by (auto simp add: bit_exp_iff)

lemma bit_flags:
  "bit PARENB n \<longleftrightarrow> n = 8"
  "bit CSTOPB n \<longleftrightarrow> n = 6"
  "bit CREAD n \<longleftrightarrow> n = 7"
  "bit CLOCAL n \<longleftrightarrow> n = 11"
  "bit CRTSCTS n \<longleftrightarrow> n = 31"
  "bit CSIZE n \<longleftrightarrow> n = 4 \<or> n = 5"
  "bit CS8 n \<longleftrightarrow> n = 4 \<or> n = 5"
  using bit_pow_u32 [of 8 n] bit_pow_u32 [of 6 n] bit_pow_u32 [of 7 n] bit_pow_u32 [of 11 n]
    bit_pow_u32 [of 31 n] bit_pow_u32 [of 4 n] bit_pow_u32 [of 5 n]
    bit_or_iff [of "2 ^ 4 :: u32" "2 ^ 5" n]
  by (simp_all add: PARENB_def CSTOPB_def CSIZE_def CS8_def CRTSCTS_def CREAD_def CLOCAL_def)

lemma cflag_bits:
  fixes c :: u32
  defines "c' \<equiv> ((((c AND NOT PARENB) AND NOT CSTOPB) AND NOT CSIZE) OR CS8) AND NOT CRTSCTS OR (CREAD OR CLOCAL)"
  shows "c' AND PARENB = 0" "c' AND CSTOPB = 0" "c' AND CSIZE = CS8" "c' AND CRTSCTS = 0"
    "c' AND CREAD = CREAD" "c' AND CLOCAL = CLOCAL"
  unfolding c'_def
  by (rule bit_word_eqI; auto simp add: bit_simps bit_flags)+


lemmas library_defs = library_open_def library_close_def library_write_def library_read_def
  library_errno_location_def library_strerror_def library_tcgetattr_def library_tcsetattr_def
  library_cfsetspeed_def

lemma geterrnoString_eq:
  "geterrnoString os h =
     (case strerror_c os (h @ [Call_errno_location,
             Call_strerror (case errno_location_c os (h @ [Call_errno_location]) of None \<Rightarrow> 0 | Some v \<Rightarrow> v)]) of
        None \<Rightarrow> [] | Some s \<Rightarrow> s,
      h @ [Call_errno_location,
           Call_strerror (case errno_location_c os (h @ [Call_errno_location]) of None \<Rightarrow> 0 | Some v \<Rightarrow> v)])"
  by (simp add: geterrnoString_def errno_def strerror_def library_defs Let_def
      split: option.split)

section \<open>The line iterator\<close>

lemma String_split_not_Nil: "String_split s sep \<noteq> []"
  by (induction s) (auto split: list.splits)

lemma String_split_concat:
  "concat (map (\<lambda>l. l @ [sep]) (butlast (String_split s sep))) @ last (String_split s sep) = s"
  by (induction s) (auto simp add: String_split_not_Nil split: list.splits)

lemma String_split_no_sep: "l \<in> set (String_split s sep) \<Longrightarrow> sep \<notin> set l"
  by (induction s arbitrary: l) (auto split: list.splits if_splits)


lemma read_line_loop_Cons:
  "c \<noteq> [] \<Longrightarrow>
   read_line_loop data (Inr c # rs) =
     (butlast (String_split (data @ c) (CHR 0x0A))
        @ fst (read_line_loop (last (String_split (data @ c) (CHR 0x0A))) rs),
      snd (read_line_loop (last (String_split (data @ c) (CHR 0x0A))) rs))"
  by (simp add: Let_def split: prod.split)

lemma read_line_loop_content:
  "\<exists>pending. snd (read_line_loop data (map Inr cs)) = Inr pending \<and>
     concat (map (\<lambda>l. l @ [CHR 0x0A]) (fst (read_line_loop data (map Inr cs)))) @ pending
       = data @ concat cs"
proof (induction cs arbitrary: data)
  case Nil
  show ?case by simp
next
  case (Cons c cs)
  show ?case
  proof (cases "c = []")
    case True
    with Cons [of data] show ?thesis by simp
  next
    case False
    define ls where "ls = String_split (data @ c) (CHR 0x0A)"
    define rest where "rest = read_line_loop (last ls) (map Inr cs)"
    from Cons [of "last ls"] obtain pending where
      p: "snd rest = Inr pending"
         "concat (map (\<lambda>l. l @ [CHR 0x0A]) (fst rest)) @ pending = last ls @ concat cs"
      unfolding rest_def by blast
    have step: "read_line_loop data (map Inr (c # cs)) = (butlast ls @ fst rest, snd rest)"
      using read_line_loop_Cons [OF False, of data "map Inr cs"]
      by (simp only: list.map ls_def rest_def)
    have split: "concat (map (\<lambda>l. l @ [CHR 0x0A]) (butlast ls)) @ last ls = data @ c"
      unfolding ls_def by (rule String_split_concat)
    have "concat (map (\<lambda>l. l @ [CHR 0x0A]) (butlast ls @ fst rest)) @ pending
          = concat (map (\<lambda>l. l @ [CHR 0x0A]) (butlast ls))
            @ (concat (map (\<lambda>l. l @ [CHR 0x0A]) (fst rest)) @ pending)"
      by simp
    also have "\<dots> = (concat (map (\<lambda>l. l @ [CHR 0x0A]) (butlast ls)) @ last ls) @ concat cs"
      by (simp only: p(2) append_assoc)
    also have "\<dots> = data @ concat (c # cs)"
      by (simp only: split) simp
    finally show ?thesis
      using p(1) by (simp only: step fst_conv snd_conv) blast
  qed
qed

lemma read_line_loop_no_newline:
  "\<forall>l \<in> set (fst (read_line_loop data (map Inr cs))). CHR 0x0A \<notin> set l"
proof (induction cs arbitrary: data)
  case Nil
  show ?case by simp
next
  case (Cons c cs)
  show ?case
  proof (cases "c = []")
    case True
    with Cons [of data] show ?thesis by simp
  next
    case False
    have "\<forall>l \<in> set (butlast (String_split (data @ c) (CHR 0x0A))). CHR 0x0A \<notin> set l"
      by (blast dest: in_set_butlastD String_split_no_sep)
    with Cons [of "last (String_split (data @ c) (CHR 0x0A))"] show ?thesis
      by (simp only: list.map read_line_loop_Cons [OF False] fst_conv set_append) blast
  qed
qed

lemma read_line_loop_empty_chunk:
  "read_line_loop data (map Inr (cs @ [] # cs')) = read_line_loop data (map Inr (cs @ cs'))"
  by (induction cs arbitrary: data) (simp_all add: Let_def)

text \<open>
  Claim C3.  When the reads deliver the four chunks \<open>"AB"\<close>, \<open>"C\n"\<close>, \<open>"DE\n"\<close>,
  \<open>"F"\<close> in this order, the line iterator yields the two lines \<open>"ABC"\<close> and \<open>"DE"\<close>,
  without the newline, yields no third line, and keeps \<open>"F"\<close> as the pending segment.
\<close>

theorem read_line_example:
  "SerialPort_read_line
     [Inr ''AB'', Inr (''C'' @ [CHR 0x0A]), Inr (''DE'' @ [CHR 0x0A]), Inr ''F'']
   = ([''ABC'', ''DE''], Inr ''F'')"
  by (simp add: SerialPort_read_line_def)

text \<open>
  Claim C10.  For every finite sequence of chunks delivered by the reads, the line
  iterator keeps the content: it stands awaiting the next read, and the yielded lines,
  each followed by a newline, followed by the pending segment, are the concatenation of
  the chunks.  No yielded line contains a newline.  An empty chunk, wherever it occurs
  in the sequence, yields no line and leaves the pending segment as it was: the
  iterator behaves as if the chunk had not been delivered.
\<close>

theorem read_line_preserves_content:
  "(\<exists>pending. snd (SerialPort_read_line (map Inr cs)) = Inr pending \<and>
      concat (map (\<lambda>l. l @ [CHR 0x0A]) (fst (SerialPort_read_line (map Inr cs)))) @ pending
        = concat cs) \<and>
   (\<forall>l \<in> set (fst (SerialPort_read_line (map Inr cs))). CHR 0x0A \<notin> set l) \<and>
   SerialPort_read_line (map Inr (cs @ [] # cs')) = SerialPort_read_line (map Inr (cs @ cs'))"
  using read_line_loop_content [of "[]" cs] read_line_loop_no_newline [of "[]" cs]
    read_line_loop_empty_chunk [of "[]" cs cs']
  unfolding SerialPort_read_line_def by auto

theorem read_line_preserves_content_witness:
  "fst (SerialPort_read_line (map Inr [''x'' @ [CHR 0x0A] @ ''y'', ''z'' @ [CHR 0x0A, CHR 0x0A]]))
     = [''x'', ''yz'', []] \<and>
   snd (SerialPort_read_line (map Inr [''x'' @ [CHR 0x0A] @ ''y'', ''z'' @ [CHR 0x0A, CHR 0x0A]]))
     = Inr [] \<and>
   concat (map (\<lambda>l. l @ [CHR 0x0A]) [''x'', ''yz'', []]) @ []
     = concat [''x'' @ [CHR 0x0A] @ ''y'', ''z'' @ [CHR 0x0A, CHR 0x0A]] \<and>
   ''yz'' \<in> set (fst (SerialPort_read_line
       (map Inr [''x'' @ [CHR 0x0A] @ ''y'', ''z'' @ [CHR 0x0A, CHR 0x0A]]))) \<and>
   CHR 0x0A \<notin> set ''yz'' \<and>
   SerialPort_read_line (map Inr ([''x'' @ [CHR 0x0A] @ ''y'', ''z'' @ [CHR 0x0A, CHR 0x0A]] @ [] # [''w'']))
     = SerialPort_read_line (map Inr ([''x'' @ [CHR 0x0A] @ ''y'', ''z'' @ [CHR 0x0A, CHR 0x0A]] @ [''w'']))"
  using read_line_preserves_content
    [of "[''x'' @ [CHR 0x0A] @ ''y'', ''z'' @ [CHR 0x0A, CHR 0x0A]]" "[''w'']"]
  by (simp add: SerialPort_read_line_def)

section \<open>Reading and writing\<close>

lemma take_stored_into:
  "int (length bs) = rlen \<Longrightarrow> length bs \<le> length buf \<Longrightarrow>
   take (nat rlen) (stored_into buf bs) = bs"
  by (auto simp add: stored_into_def)

text \<open>
  Claim C8.  \<open>read()\<close> issues one OS read, for a buffer of \<open>buffer_size\<close> bytes, 255
  when \<open>buffer_size\<close> is absent.  It fails with \<open>IoError\<close> exactly when the OS call
  returns a negative value; otherwise it returns the first \<open>rlen\<close> bytes of the buffer
  as the call left it, which are the bytes delivered when the call stored \<open>rlen\<close> bytes
  that fit the buffer.  A read of zero bytes returns the empty sequence and is no error,
  and the result is never longer than the buffer.
\<close>

theorem SerialPort_read_outcome:
  "let n = (case buffer_size (options this) of None \<Rightarrow> 255 | Some k \<Rightarrow> k);
       c = Call_read (fd this) n;
       rlen = fst (read_c os (h @ [c]));
       bs = snd (read_c os (h @ [c]));
       r = fst (SerialPort_read os this h);
       h' = snd (SerialPort_read os this h)
   in filter is_read (drop (length h) h') = [c]
    \<and> ((\<exists>m. r = Inl (IoError m)) \<longleftrightarrow> rlen < 0)
    \<and> (r = Inr (take (nat rlen) (stored_into (replicate n 0) bs)) \<longleftrightarrow> 0 \<le> rlen)
    \<and> (rlen = 0 \<longrightarrow> r = Inr [])
    \<and> (int (length bs) = rlen \<and> length bs \<le> n \<longrightarrow> r = Inr bs)
    \<and> (\<forall>out. r = Inr out \<longrightarrow> length out \<le> n)"
  by (auto simp add: SerialPort_read_def library_defs geterrnoString_eq Let_def split_beta
      take_stored_into)

theorem SerialPort_read_outcome_witness:
  "fst (read_c idle_platform [Call_read (fd main_port) 255]) = 0 \<and>
   fst (SerialPort_read idle_platform main_port []) = Inr [] \<and>
   read_c sim_platform [Call_read (fd main_port) 255] = (2, [72, 105]) \<and>
   length [72, 105 :: byte] \<le> 255 \<and>
   fst (SerialPort_read sim_platform main_port []) = Inr [72, 105]"
proof -
  have n: "(case buffer_size (options main_port) of None \<Rightarrow> 255 | Some k \<Rightarrow> k) = (255 :: nat)"
    by (simp add: main_port_def main_options_def)
  have a: "read_c idle_platform [Call_read (fd main_port) 255] = (0, [])"
    by (simp add: idle_platform_def)
  have b: "read_c sim_platform [Call_read (fd main_port) 255] = (2, [72, 105])"
    by (simp add: sim_platform_def sim_closed_def)
  from SerialPort_read_outcome [of main_port idle_platform "[]"]
    SerialPort_read_outcome [of main_port sim_platform "[]"]
  show ?thesis by (simp add: Let_def n a b stored_into_def)
qed

text \<open>
  Claim C7.  \<open>write(data)\<close> issues one OS write of the whole buffer and never a second
  one.  It returns without error exactly when the OS reports the full length, fails with
  \<open>IoError\<close> exactly when the OS reports a negative value, and fails with
  \<open>ShortWrite\<close> exactly when the OS reports a non-negative value other than the length,
  in particular when fewer bytes were written than requested.
\<close>

theorem SerialPort_write_outcome:
  "let c = Call_write (fd this) data (length data);
       wlen = write_c os (h @ [c]);
       r = fst (SerialPort_write os this data h);
       h' = snd (SerialPort_write os this data h)
   in filter is_write (drop (length h) h') = [c]
    \<and> (r = Inr () \<longleftrightarrow> wlen = int (length data))
    \<and> ((\<exists>m. r = Inl (IoError m)) \<longleftrightarrow> wlen < 0)
    \<and> ((\<exists>m. r = Inl (ShortWrite m)) \<longleftrightarrow> 0 \<le> wlen \<and> wlen \<noteq> int (length data))
    \<and> (0 \<le> wlen \<and> wlen < int (length data) \<longrightarrow> (\<exists>m. r = Inl (ShortWrite m)))"
  by (auto simp add: SerialPort_write_def library_defs geterrnoString_eq Let_def split_beta)

theorem SerialPort_write_outcome_witness:
  "0 \<le> write_c short_write_platform ([] @ [Call_write (fd main_port) [1, 2, 3] 3]) \<and>
   write_c short_write_platform ([] @ [Call_write (fd main_port) [1, 2, 3] 3]) < 3 \<and>
   (\<exists>m. fst (SerialPort_write short_write_platform main_port [1, 2, 3] []) = Inl (ShortWrite m)) \<and>
   filter is_write (snd (SerialPort_write short_write_platform main_port [1, 2, 3] []))
     = [Call_write 3 [1, 2, 3] 3]"
  using SerialPort_write_outcome [of main_port "[1, 2, 3]" short_write_platform "[]"]
  by (simp add: Let_def short_write_platform_def main_port_def)

section \<open>Closing\<close>

text \<open>
  Claim C1 asks that after a successful \<open>close()\<close> every \<open>read\<close>, \<open>write\<close> and
  \<open>close\<close> fails with \<open>ClosedHandle\<close> and that a second close issues no second OS
  close.  On the simulated platform the first close succeeds; the second close then
  issues a second OS close on descriptor 3 and fails with \<open>CloseError\<close>, and read and
  write issue their OS calls on the stale descriptor and fail with \<open>IoError\<close>.
\<close>

theorem close_then_use_counterexample:
  "SerialPort_close sim_platform main_port [] = (Inr (), [Call_close 3]) \<and>
   SerialPort_close sim_platform main_port [Call_close 3]
     = (Inl (CloseError ''Error while closing: Bad file descriptor''),
        [Call_close 3, Call_close 3, Call_errno_location, Call_strerror 9]) \<and>
   SerialPort_read sim_platform main_port [Call_close 3]
     = (Inl (IoError ''Error while reading: Bad file descriptor''),
        [Call_close 3, Call_read 3 255, Call_errno_location, Call_strerror 9]) \<and>
   SerialPort_write sim_platform main_port [1, 2, 3] [Call_close 3]
     = (Inl (IoError ''Error while writing: Bad file descriptor''),
        [Call_close 3, Call_write 3 [1, 2, 3] 3, Call_errno_location, Call_strerror 9])"
  by code_simp

text \<open>
  Claim C1, as the code has it.  The port keeps no open or closed state, so after any
  history of calls \<open>h\<close>, in particular one that ends in a successful close of the
  port, each method goes to the OS again with the stored descriptor and its outcome is
  what the OS answers there.  \<open>close()\<close> issues exactly one OS close on the stored
  descriptor, fails with \<open>CloseError\<close> exactly when that call returns a negative value
  and returns normally otherwise.  \<open>read()\<close> issues exactly one OS read on the stored
  descriptor, fails with \<open>IoError\<close> exactly when it returns a negative value and
  otherwise returns the bytes it filled.  \<open>write(data)\<close> issues exactly one OS write
  of \<open>data\<close> on the stored descriptor, returns normally exactly when it reports the
  full length, fails with \<open>IoError\<close> exactly when it reports a negative value and with
  \<open>ShortWrite\<close> exactly when it reports another length.  None of the three ever
  fails with \<open>ClosedHandle\<close>.
\<close>

theorem SerialPort_keeps_no_closed_state:
  "let c = Call_close (fd this);
       ret = close_c os (h @ [c]);
       r = fst (SerialPort_close os this h);
       h' = snd (SerialPort_close os this h);
       n = (case buffer_size (options this) of None \<Rightarrow> 255 | Some k \<Rightarrow> k);
       cr = Call_read (fd this) n;
       rlen = fst (read_c os (h @ [cr]));
       bs = snd (read_c os (h @ [cr]));
       rr = fst (SerialPort_read os this h);
       hr = snd (SerialPort_read os this h);
       cw = Call_write (fd this) data (length data);
       wlen = write_c os (h @ [cw]);
       rw = fst (SerialPort_write os this data h);
       hw = snd (SerialPort_write os this data h)
   in filter is_close (drop (length h) h') = [c]
    \<and> ((\<exists>m. r = Inl (CloseError m)) \<longleftrightarrow> ret < 0)
    \<and> (r = Inr () \<longleftrightarrow> 0 \<le> ret)
    \<and> r \<noteq> Inl ClosedHandle
    \<and> filter is_read (drop (length h) hr) = [cr]
    \<and> ((\<exists>m. rr = Inl (IoError m)) \<longleftrightarrow> rlen < 0)
    \<and> (rr = Inr (take (nat rlen) (stored_into (replicate n 0) bs)) \<longleftrightarrow> 0 \<le> rlen)
    \<and> rr \<noteq> Inl ClosedHandle
    \<and> filter is_write (drop (length h) hw) = [cw]
    \<and> (rw = Inr () \<longleftrightarrow> wlen = int (length data))
    \<and> ((\<exists>m. rw = Inl (IoError m)) \<longleftrightarrow> wlen < 0)
    \<and> ((\<exists>m. rw = Inl (ShortWrite m)) \<longleftrightarrow> 0 \<le> wlen \<and> wlen \<noteq> int (length data))
    \<and> rw \<noteq> Inl ClosedHandle"
  by (auto simp add: SerialPort_close_def SerialPort_read_def SerialPort_write_def
      library_defs geterrnoString_eq Let_def split_beta)

section \<open>Opening\<close>

lemma uint_setUint8_same:
  "off < length buf \<Longrightarrow> uint (setUint8 buf off v ! off) = v mod 256"
  by (simp add: setUint8_def uint_word_of_int)

lemma setUint8_other: "off' \<noteq> off \<Longrightarrow> setUint8 buf off' v ! off = buf ! off"
  by (simp add: setUint8_def)

text \<open>
  Claim C4.  \<open>open(path, options)\<close> runs its steps in order and stops at the first
  failure.  It fails with \<open>OpenFailed\<close>, the message ending in the rendered errno
  string, exactly when the OS open returns a negative descriptor; with
  \<open>GetAttributesFailed\<close> exactly when the descriptor is valid and \<open>tcgetattr\<close> returns
  a value other than zero; with \<open>SetAttributesFailed\<close> exactly when both succeeded and
  \<open>tcsetattr\<close> returns a value other than zero; and it returns the port exactly when
  all three succeeded.  What \<open>cfsetspeed\<close> returns plays no part.  The calls issued
  are the open, then \<open>tcgetattr\<close>, then \<open>cfsetspeed\<close>, then \<open>tcsetattr\<close>, cut short
  after the failing call, which is followed by the two calls that render errno.
\<close>

theorem open_port_outcome:
  "let c1 = Call_open (TextEncoder_encode os file) (O_RDWR OR O_NOCTTY OR O_SYNC);
       r = fst (open_port os file opts h);
       h' = snd (open_port os file opts h);
       fd' = open_c os (h @ [c1]);
       ga = fst (tcgetattr_c os (h @ [c1, Call_tcgetattr fd']));
       sa = tcsetattr_c os (take (length h + 4) h')
   in (r = Inl (OpenFailed (''Couldn'' @ [CHR 0x27] @ ''t open '' @ [CHR 0x27] @ file
                            @ [CHR 0x27] @ '': '' @ fst (geterrnoString os (h @ [c1]))))
         \<longleftrightarrow> fd' < 0)
    \<and> ((\<exists>m. r = Inl (OpenFailed m)) \<longleftrightarrow> fd' < 0)
    \<and> ((\<exists>m. r = Inl (GetAttributesFailed m)) \<longleftrightarrow> 0 \<le> fd' \<and> ga \<noteq> 0)
    \<and> ((\<exists>m. r = Inl (SetAttributesFailed m)) \<longleftrightarrow> 0 \<le> fd' \<and> ga = 0 \<and> sa \<noteq> 0)
    \<and> (r = Inr \<lparr>fd = fd', options = opts\<rparr> \<longleftrightarrow> 0 \<le> fd' \<and> ga = 0 \<and> sa = 0)
    \<and> (\<exists>e tty img. drop (length h) h' =
          (if fd' < 0 then [c1, Call_errno_location, Call_strerror e]
           else if ga \<noteq> 0 then [c1, Call_tcgetattr fd', Call_errno_location, Call_strerror e]
           else [c1, Call_tcgetattr fd', Call_cfsetspeed tty (Baudrate_value (baudrate opts)),
                 Call_tcsetattr fd' TCSANOW img]
                @ (if sa \<noteq> 0 then [Call_errno_location, Call_strerror e] else [])))"
  by (auto simp add: open_port_def library_defs geterrnoString_eq Let_def split_beta)

text \<open>
  The three failures and the success on the simulated platforms: the device is missing,
  the path is no terminal, the attributes are rejected; and on the last one the failed
  \<open>cfsetspeed\<close> does not keep \<open>open\<close> from returning the port.
\<close>

lemma open_port_examples:
  "fst (open_port enoent_platform ''/dev/ttyUSB9'' main_options [])
     = Inl (OpenFailed (''Couldn'' @ [CHR 0x27] @ ''t open '' @ [CHR 0x27] @ ''/dev/ttyUSB9''
                        @ [CHR 0x27] @ '': No such file or directory''))"
  "fst (open_port enotty_platform ''/dev/null'' main_options [])
     = Inl (GetAttributesFailed ''tcgetattr: Inappropriate ioctl for device'')"
  "fst (open_port einval_platform ''/dev/ttyUSB0'' main_options [])
     = Inl (SetAttributesFailed ''tcsetattr: Invalid argument'')"
  "fst (cfsetspeed_c sim_platform []) = - 1"
  "fst (open_port sim_platform ''/dev/ttyUSB0'' main_options []) = Inr main_port"
  by code_simp+

text \<open>
  Claim C5 asks that when \<open>open\<close> fails after the OS open succeeded, the descriptor
  is closed before the error is raised.  Here the path opens as descriptor 3 and is not
  a terminal: \<open>open\<close> fails with \<open>GetAttributesFailed\<close> and has issued no OS close,
  so descriptor 3 stays open and unreachable.
\<close>

theorem open_port_leaks_descriptor:
  "open_port enotty_platform ''/dev/null'' main_options []
     = (Inl (GetAttributesFailed ''tcgetattr: Inappropriate ioctl for device''),
        [Call_open [47, 100, 101, 118, 47, 110, 117, 108, 108] 0x101102,
         Call_tcgetattr 3, Call_errno_location, Call_strerror 25]) \<and>
   filter is_close (snd (open_port enotty_platform ''/dev/null'' main_options [])) = []"
  by code_simp

text \<open>
  Claim C2.  When \<open>open\<close> succeeds, for any options and so for every baud rate of the
  enum, its last OS call commits a 100-byte termios image on the descriptor of the port
  in which, read in the byte order of the host, parity and the second stop bit are off,
  the character size is 8 bits, hardware flow control is off, the receiver is enabled
  and modem control lines are ignored, and the input, output and local flag words are
  zero.
\<close>

theorem open_port_commits_8N1:
  assumes "fst (open_port os file opts h) = Inr port"
  shows "\<exists>img. last (snd (open_port os file opts h)) = Call_tcsetattr (fd port) TCSANOW img \<and>
           length img = 100 \<and> is_8N1 (host_little_endian os) img"
  using assms
  by (auto simp add: open_port_def library_defs geterrnoString_eq Let_def is_8N1_def
      is_platform_little_endian_host VTIME_def VMIN_def
      getUint32_setUint32_same getUint32_setUint32_other getUint32_setUint8_other cflag_bits
      split: prod.splits if_splits)

theorem open_port_commits_8N1_witness:
  "fst (open_port sim_platform ''/dev/ttyUSB0'' main_options []) = Inr main_port \<and>
   (\<exists>img. last (snd (open_port sim_platform ''/dev/ttyUSB0'' main_options []))
            = Call_tcsetattr (fd main_port) TCSANOW img \<and>
          length img = 100 \<and> is_8N1 (host_little_endian sim_platform) img)"
proof -
  have a: "fst (open_port sim_platform ''/dev/ttyUSB0'' main_options []) = Inr main_port"
    by code_simp
  from open_port_commits_8N1 [OF a] a show ?thesis by simp
qed

text \<open>
  Claim C6.  For \<open>timeout_in_deciseconds\<close> and \<open>minimum_number_of_chars_read\<close> in
  the range 0 to 255, the image committed by a successful \<open>open\<close> holds exactly these
  values in the bytes at offsets 17 + 5 and 17 + 6.
\<close>

theorem open_port_commits_timeout_and_minimum:
  assumes "fst (open_port os file opts h) = Inr port"
    and "0 \<le> timeout_in_deciseconds opts" and "timeout_in_deciseconds opts \<le> 255"
    and "0 \<le> minimum_number_of_chars_read opts" and "minimum_number_of_chars_read opts \<le> 255"
  shows "\<exists>img. last (snd (open_port os file opts h)) = Call_tcsetattr (fd port) TCSANOW img \<and>
           uint (img ! (17 + 5)) = timeout_in_deciseconds opts \<and>
           uint (img ! (17 + 6)) = minimum_number_of_chars_read opts"
  using assms
  by (auto simp add: open_port_def library_defs geterrnoString_eq Let_def
      VTIME_def VMIN_def uint_setUint8_same setUint8_other
      split: prod.splits if_splits)

theorem open_port_commits_timeout_and_minimum_witness:
  "fst (open_port sim_platform ''/dev/ttyUSB0''
          (main_options\<lparr>timeout_in_deciseconds := 255, minimum_number_of_chars_read := 7\<rparr>) [])
     = Inr \<lparr>fd = 3, options =
          main_options\<lparr>timeout_in_deciseconds := 255, minimum_number_of_chars_read := 7\<rparr>\<rparr> \<and>
   (\<exists>img. last (snd (open_port sim_platform ''/dev/ttyUSB0''
            (main_options\<lparr>timeout_in_deciseconds := 255, minimum_number_of_chars_read := 7\<rparr>) []))
            = Call_tcsetattr 3 TCSANOW img \<and>
          uint (img ! (17 + 5)) = 255 \<and> uint (img ! (17 + 6)) = 7)"
proof -
  let ?opts = "main_options\<lparr>timeout_in_deciseconds := 255, minimum_number_of_chars_read := 7\<rparr>"
  have a: "fst (open_port sim_platform ''/dev/ttyUSB0'' ?opts [])
             = Inr \<lparr>fd = 3, options = ?opts\<rparr>"
    by code_simp
  from open_port_commits_timeout_and_minimum [OF a] a show ?thesis by simp
qed



end
